theory Spec2Isabelle
  imports Complex_Main "HOL-Library.Multiset"
begin

section \<open>Numbers: Python floats (IEEE 754 binary64)\<close>

text \<open>
  The accuracies handled by \<^verbatim>\<open>train\<close> are NumPy/Python floats. A float is modelled
  by its value: a real number (always a rational that binary64 represents, since every operation
  rounds), an infinity, or NaN. Signed zeros are not distinguished (they compare equal).
  Rounding is to nearest, ties to even, with 53 significant bits, the subnormal range
  below \<open>2\<^sup>-\<^sup>1\<^sup>0\<^sup>2\<^sup>2\<close> and overflow to infinity from \<open>2\<^sup>1\<^sup>0\<^sup>2\<^sup>4\<close>.
\<close>

datatype float64 = Fin real | PInf | NInf | NaN

fun bitlen :: "nat \<Rightarrow> nat" where
  "bitlen n = (if n = 0 then 0 else Suc (bitlen (n div 2)))"

declare bitlen.simps [simp del]

definition pow2 :: "int \<Rightarrow> real" where
  "pow2 e = (if 0 \<le> e then 2 ^ nat e else 1 / 2 ^ nat (- e))"

definition ilog2 :: "real \<Rightarrow> int" where
  \<comment> \<open>\<open>\<lfloor>log\<^sub>2 \<bar>x\<bar>\<rfloor>\<close> for \<open>x \<noteq> 0\<close>\<close>
  "ilog2 x =
     (if 1 \<le> \<bar>x\<bar> then int (bitlen (nat \<lfloor>\<bar>x\<bar>\<rfloor>)) - 1
      else - int (bitlen (nat (\<lceil>1 / \<bar>x\<bar>\<rceil> - 1))))"

definition round_half_even :: "real \<Rightarrow> int" where
  "round_half_even y =
     (let n = \<lfloor>y\<rfloor>; r = y - of_int n
      in if r < 1 / 2 then n else if 1 / 2 < r then n + 1
         else if even n then n else n + 1)"

definition round64 :: "real \<Rightarrow> float64" where
  "round64 x =
     (if x = 0 then Fin 0
      else
        let e = max (ilog2 x) (- 1022);
            u = pow2 (e - 52);
            y = of_int (round_half_even (x / u)) * u
        in if pow2 1024 \<le> \<bar>y\<bar> then (if 0 < x then PInf else NInf) else Fin y)"

fun f_neg :: "float64 \<Rightarrow> float64" where
  "f_neg (Fin a) = Fin (- a)"
| "f_neg PInf = NInf"
| "f_neg NInf = PInf"
| "f_neg NaN = NaN"

fun f_add :: "float64 \<Rightarrow> float64 \<Rightarrow> float64" where
  "f_add NaN y = NaN"
| "f_add x NaN = NaN"
| "f_add (Fin a) (Fin b) = round64 (a + b)"
| "f_add PInf NInf = NaN"
| "f_add NInf PInf = NaN"
| "f_add PInf y = PInf"
| "f_add NInf y = NInf"
| "f_add (Fin a) y = y"

definition f_sub :: "float64 \<Rightarrow> float64 \<Rightarrow> float64" where
  "f_sub x y = f_add x (f_neg y)"

fun f_div_count :: "float64 \<Rightarrow> nat \<Rightarrow> float64" where
  \<comment> \<open>division of a float by a count converted to float; \<open>0.0 / 0\<close> is NaN,
      \<open>x / 0\<close> an infinity (NumPy warns and does not raise)\<close>
  "f_div_count NaN n = NaN"
| "f_div_count PInf n = PInf"
| "f_div_count NInf n = NInf"
| "f_div_count (Fin a) n =
     (if n = 0 then (if a = 0 then NaN else if 0 < a then PInf else NInf)
      else case round64 (of_nat n) of
             Fin c \<Rightarrow> round64 (a / c)
           | _ \<Rightarrow> Fin 0)"

fun f_less :: "float64 \<Rightarrow> float64 \<Rightarrow> bool" where
  "f_less NaN y = False"
| "f_less x NaN = False"
| "f_less (Fin a) (Fin b) = (a < b)"
| "f_less x NInf = False"
| "f_less PInf y = False"
| "f_less NInf y = True"
| "f_less (Fin a) PInf = True"

definition f_gt :: "float64 \<Rightarrow> float64 \<Rightarrow> bool" where
  \<comment> \<open>Python's \<^verbatim>\<open>x > y\<close> on floats: false as soon as one side is NaN\<close>
  "f_gt x y = f_less y x"

definition f_le :: "float64 \<Rightarrow> float64 \<Rightarrow> bool" where
  \<comment> \<open>Python's \<^verbatim>\<open>x <= y\<close> on floats\<close>
  "f_le x y = (x \<noteq> NaN \<and> y \<noteq> NaN \<and> (f_less x y \<or> x = y))"

text \<open>
  \<^verbatim>\<open>np.mean\<close> converts the list to a contiguous array of doubles and divides
  \<^verbatim>\<open>np.add.reduce\<close> of it by the number of elements. The reduction starts from 0.0 and
  adds NumPy's pairwise sum of the array: fewer than 8 elements are added in order; up to
  128 elements are added into 8 accumulators, block after block of 8, the accumulators are
  combined as a balanced tree, and the elements left over are added in order; a longer
  array is cut in two near the middle, at a multiple of 8, and the sums of the halves are
  added.
\<close>

fun accumulate8 :: "float64 list \<Rightarrow> float64 list \<Rightarrow> float64 list \<times> float64 list" where
  \<comment> \<open>the loop \<^verbatim>\<open>for (i = 8; i < n - (n % 8); i += 8) r[j] += a[i + j]\<close>: the
      accumulators and the elements left over\<close>
  "accumulate8 r xs =
     (if length xs < 8 then (r, xs)
      else accumulate8 (map2 f_add r (take 8 xs)) (drop 8 xs))"

declare accumulate8.simps [simp del]

function pairwise_sum :: "float64 list \<Rightarrow> float64" where
  "pairwise_sum a =
     (if length a < 8 then foldl f_add (Fin 0) a
      else if length a \<le> 128 then
        (case accumulate8 (take 8 a) (drop 8 a) of
           (r, rest) \<Rightarrow>
             foldl f_add
               (f_add (f_add (f_add (r ! 0) (r ! 1)) (f_add (r ! 2) (r ! 3)))
                      (f_add (f_add (r ! 4) (r ! 5)) (f_add (r ! 6) (r ! 7))))
               rest)
      else
        f_add (pairwise_sum (take (length a div 2 - length a div 2 mod 8) a))
              (pairwise_sum (drop (length a div 2 - length a div 2 mod 8) a)))"
  by pat_completeness auto

termination
  by (relation "measure length") auto

declare pairwise_sum.simps [simp del]

definition np_mean :: "float64 list \<Rightarrow> float64" where
  \<comment> \<open>For the empty list this is \<open>0.0 / 0\<close>, that is NaN: NumPy warns and raises
      nothing.\<close>
  "np_mean xs = f_div_count (f_add (Fin 0) (pairwise_sum xs)) (length xs)"

section \<open>Strings, patterns and the file system\<close>

datatype error =
  ValueError | ZeroDivisionError | FileNotFoundError | FileExistsError | NotADirectoryError |
  IsADirectoryError

definition rstrip :: "char \<Rightarrow> string \<Rightarrow> string" where
  \<comment> \<open>\<^verbatim>\<open>s.rstrip(c)\<close> for a one-character argument\<close>
  "rstrip c s = rev (dropWhile (\<lambda>x. x = c) (rev s))"

definition digit_char :: "nat \<Rightarrow> char" where
  "digit_char n = ''0123456789'' ! n"

fun str_nat :: "nat \<Rightarrow> string" where
  \<comment> \<open>\<^verbatim>\<open>'{}'.format(n)\<close> for a non-negative integer: its decimal digits\<close>
  "str_nat n = (if n < 10 then [digit_char n] else str_nat (n div 10) @ [digit_char (n mod 10)])"

declare str_nat.simps [simp del]

text \<open>
  Regular expressions, as far as the pattern of \<^verbatim>\<open>train\<close> needs them, matched with
  derivatives. \<^verbatim>\<open>re.match\<close> anchors the pattern at the start of the string only: it
  succeeds when some prefix of the string is in the language. File names are byte
  strings here and \<^verbatim>\<open>\d\<close> is an ASCII digit.
\<close>

datatype regex =
  RNever | REps | RChar char | RDigit | RSeq regex regex | RAlt regex regex | RStar regex

definition is_digit :: "char \<Rightarrow> bool" where
  "is_digit c = (c \<in> set ''0123456789'')"

fun nullable :: "regex \<Rightarrow> bool" where
  "nullable RNever = False"
| "nullable REps = True"
| "nullable (RChar c) = False"
| "nullable RDigit = False"
| "nullable (RSeq r s) = (nullable r \<and> nullable s)"
| "nullable (RAlt r s) = (nullable r \<or> nullable s)"
| "nullable (RStar r) = True"

fun deriv :: "char \<Rightarrow> regex \<Rightarrow> regex" where
  "deriv x RNever = RNever"
| "deriv x REps = RNever"
| "deriv x (RChar c) = (if x = c then REps else RNever)"
| "deriv x RDigit = (if is_digit x then REps else RNever)"
| "deriv x (RSeq r s) =
     (if nullable r then RAlt (RSeq (deriv x r) s) (deriv x s) else RSeq (deriv x r) s)"
| "deriv x (RAlt r s) = RAlt (deriv x r) (deriv x s)"
| "deriv x (RStar r) = RSeq (deriv x r) (RStar r)"

fun re_match :: "regex \<Rightarrow> string \<Rightarrow> bool" where
  "re_match r [] = nullable r"
| "re_match r (x # xs) = (nullable r \<or> re_match (deriv x r) xs)"

definition RPlus :: "regex \<Rightarrow> regex" where
  "RPlus r = RSeq r (RStar r)"

definition RLit :: "string \<Rightarrow> regex" where
  "RLit s = foldr (\<lambda>c r. RSeq (RChar c) r) s REps"

definition model_regex :: regex where
  \<comment> \<open>\<^verbatim>\<open>re.compile(r"epoch\d+\.ckpt*")\<close>\<close>
  "model_regex =
     RSeq (RLit ''epoch'') (RSeq (RPlus RDigit) (RSeq (RChar CHR ''.'')
       (RSeq (RLit ''ckp'') (RStar (RChar CHR ''t'')))))"

text \<open>
  The file system is a list of absolute paths with the kind of each entry; the root
  directory is implicit. The entries of a directory \<open>d\<close> are the paths \<open>d/name\<close> with
  \<open>name\<close> non-empty and free of \<open>/\<close>.
\<close>

datatype node = File | Dir

type_synonym filesystem = "(string \<times> node) list"

definition path_exists :: "filesystem \<Rightarrow> string \<Rightarrow> bool" where
  \<comment> \<open>\<^verbatim>\<open>os.path.exists\<close>\<close>
  "path_exists fs p = (map_of fs p \<noteq> None)"

definition child_name :: "string \<Rightarrow> string \<Rightarrow> string option" where
  "child_name d p =
     (let n = drop (Suc (length d)) p
      in if take (Suc (length d)) p = d @ ''/'' \<and> n \<noteq> [] \<and> CHR ''/'' \<notin> set n
         then Some n else None)"

definition listdir :: "filesystem \<Rightarrow> string \<Rightarrow> error + string list" where
  \<comment> \<open>\<^verbatim>\<open>os.listdir\<close>\<close>
  "listdir fs d =
     (case map_of fs d of
        None \<Rightarrow> Inl FileNotFoundError
      | Some File \<Rightarrow> Inl NotADirectoryError
      | Some Dir \<Rightarrow> Inr (List.map_filter (\<lambda>(p, k). child_name d p) fs))"

definition remove :: "filesystem \<Rightarrow> string \<Rightarrow> error + filesystem" where
  \<comment> \<open>\<^verbatim>\<open>os.remove\<close>\<close>
  "remove fs p =
     (case map_of fs p of
        None \<Rightarrow> Inl FileNotFoundError
      | Some Dir \<Rightarrow> Inl IsADirectoryError
      | Some File \<Rightarrow> Inr (filter (\<lambda>(q, k). q \<noteq> p) fs))"

definition parents :: "string \<Rightarrow> string list" where
  \<comment> \<open>the proper, non-empty prefixes of a path that end just before a \<open>/\<close>\<close>
  "parents d = map (\<lambda>i. take i d) (filter (\<lambda>i. d ! i = CHR ''/'') [1..<length d])"

definition makedirs :: "filesystem \<Rightarrow> string \<Rightarrow> error + filesystem" where
  \<comment> \<open>\<^verbatim>\<open>os.makedirs\<close>: creates the directory and its missing ancestors\<close>
  "makedirs fs d =
     (if d = [] then Inl FileNotFoundError
      else if map_of fs d \<noteq> None then Inl FileExistsError
      else if list_ex (\<lambda>a. map_of fs a = Some File) (parents d) then Inl NotADirectoryError
      else Inr (fs @ map (\<lambda>a. (a, Dir)) (filter (\<lambda>a. map_of fs a = None) (parents d @ [d]))))"

fun remove_matching :: "string \<Rightarrow> string list \<Rightarrow> filesystem \<Rightarrow> error + filesystem" where
  \<comment> \<open>lines 49--51: the loop over the directory listing\<close>
  "remove_matching d [] fs = Inr fs"
| "remove_matching d (mfile # rest) fs =
     (if re_match model_regex mfile
      then (case remove fs (d @ ''/'' @ mfile) of
              Inl e \<Rightarrow> Inl e
            | Inr fs' \<Rightarrow> remove_matching d rest fs')
      else remove_matching d rest fs)"

definition startup :: "(string \<Rightarrow> string) \<Rightarrow> string \<Rightarrow> filesystem \<Rightarrow> error + string \<times> filesystem" where
  \<comment> \<open>lines 42--52; \<open>abs_path\<close> is \<^verbatim>\<open>os.path.abspath\<close>, which depends on the working
      directory. The result is the final value of \<^verbatim>\<open>model_dir\<close> and the file system.\<close>
  "startup abs_path mdir fs =
     (if mdir \<noteq> ''/'' then
        let d = rstrip CHR ''/'' (abs_path mdir) in
        if \<not> path_exists fs d then
          (case makedirs fs d of
             Inl e \<Rightarrow> Inl e
           | Inr fs' \<Rightarrow> Inr (d @ ''/'', fs'))
        else
          (case listdir fs d of
             Inl e \<Rightarrow> Inl e
           | Inr mfiles \<Rightarrow>
               (case remove_matching d mfiles fs of
                  Inl e \<Rightarrow> Inl e
                | Inr fs' \<Rightarrow> Inr (d @ ''/'', fs')))
      else Inr (mdir, fs))"

section \<open>The training run\<close>

text \<open>
  The collaborators of \<^verbatim>\<open>train\<close> (data sets, classifier, loss, optimizer, scheduler,
  metric functions) are not part of \<^verbatim>\<open>train.py\<close>; they are parameters of the model,
  collected in the record \<open>env\<close>. \<open>'p\<close> is the classifier's parameter state, \<open>'o\<close>
  the state of optimizer and scheduler, \<open>'x\<close> a sample; a batch is a list of samples.
  Calls to collaborators are taken to return; measured times are left out of the printed
  lines.

  Both data loaders are built by \<^verbatim>\<open>DataLoader(dataset, batch_size, shuffle=True)\<close>. The
  constructor raises \<^verbatim>\<open>ValueError\<close> for an empty data set (its random sampler needs a
  positive number of samples) and for a batch size that is not positive. Each pass over
  a loader draws a new random order of the samples and yields them in batches of
  \<^verbatim>\<open>batch_size\<close>, the last batch holding what is left. The random order of a pass is
  given by sort keys, one per position of the data set: ordering by keys is a permutation,
  and every permutation comes from some keys.
\<close>

definition shuffle :: "(nat \<Rightarrow> nat) \<Rightarrow> 'x list \<Rightarrow> 'x list" where
  "shuffle key xs = map snd (sort_key fst (zip (map key [0..<length xs]) xs))"

function batches :: "nat \<Rightarrow> 'x list \<Rightarrow> 'x list list" where
  \<comment> \<open>batches of \<open>n\<close> samples, without \<^verbatim>\<open>drop_last\<close>\<close>
  "batches n xs = (if n = 0 \<or> xs = [] then [] else take n xs # batches n (drop n xs))"
  by pat_completeness auto

termination
  by (relation "measure (\<lambda>(n, xs). length xs)") auto

declare batches.simps [simp del]

record ('p, 'o, 'x) env =
  use_cuda :: bool
  abspath :: "string \<Rightarrow> string"
  train_dataset :: "'x list"
    \<comment> \<open>\<^verbatim>\<open>SignalFeaData(args.train_file)\<close>, line 32\<close>
  valid_dataset :: "'x list"
    \<comment> \<open>\<^verbatim>\<open>SignalFeaData(args.valid_file)\<close>, line 37\<close>
  train_keys :: "nat \<Rightarrow> nat \<Rightarrow> nat"
    \<comment> \<open>the random order of the pass over \<^verbatim>\<open>train_loader\<close> made in the given epoch\<close>
  valid_keys :: "nat \<Rightarrow> nat \<Rightarrow> nat \<Rightarrow> nat"
    \<comment> \<open>the random order of the pass over \<^verbatim>\<open>valid_loader\<close> made in the given epoch
        at the given step\<close>
  new_model :: 'p
    \<comment> \<open>the freshly built \<^verbatim>\<open>EncoderClassifier\<close>, line 54\<close>
  new_optimizer :: 'o
    \<comment> \<open>optimizer and scheduler as built in lines 65--66\<close>
  train_batch :: "'p \<Rightarrow> 'o \<Rightarrow> 'x list \<Rightarrow> 'p \<times> 'o"
    \<comment> \<open>lines 88--94: forward pass in training mode, loss, \<^verbatim>\<open>zero_grad\<close>,
        \<^verbatim>\<open>backward\<close>, \<^verbatim>\<open>optimizer.step()\<close>\<close>
  scheduler_step :: "'o \<Rightarrow> 'o"
    \<comment> \<open>\<^verbatim>\<open>scheduler.step()\<close>, line 140\<close>
  valid_batch :: "'p \<Rightarrow> 'x list \<Rightarrow> float64 \<times> float64 \<times> float64 \<times> float64"
    \<comment> \<open>lines 109--119 on one validation batch, classifier in evaluation mode:
        \<^verbatim>\<open>(vloss.item(), i_accuracy, i_precision, i_recall)\<close>\<close>

record args =
  model_dir :: string
  batch_size :: int
  max_epoch_num :: int
  min_epoch_num :: int
  step_interval :: int

definition train_loader :: "('p, 'o, 'x) env \<Rightarrow> args \<Rightarrow> nat \<Rightarrow> 'x list list" where
  \<comment> \<open>the pass over \<^verbatim>\<open>train_loader\<close> made in the given epoch\<close>
  "train_loader E A epoch =
     batches (nat (batch_size A)) (shuffle (train_keys E epoch) (train_dataset E))"

definition valid_loader :: "('p, 'o, 'x) env \<Rightarrow> args \<Rightarrow> nat \<Rightarrow> nat \<Rightarrow> 'x list list" where
  \<comment> \<open>the pass over \<^verbatim>\<open>valid_loader\<close> made in the given epoch at the given step\<close>
  "valid_loader E A epoch i =
     batches (nat (batch_size A)) (shuffle (valid_keys E epoch i) (valid_dataset E))"

definition total_step :: "('p, 'o, 'x) env \<Rightarrow> args \<Rightarrow> nat" where
  \<comment> \<open>\<^verbatim>\<open>len(train_loader)\<close>: the number of samples divided by the batch size,
      rounded up\<close>
  "total_step E A =
     (length (train_dataset E) + nat (batch_size A) - 1) div nat (batch_size A)"

datatype 'p effect =
    Print_start
  | Print_gpu bool
  | Print_reading
  | Print_total_step nat
  | Print_progress nat int nat nat float64 float64 float64 float64 float64
      \<comment> \<open>line 132: epoch + 1, \<^verbatim>\<open>max_epoch_num\<close>, i + 1, \<^verbatim>\<open>total_step\<close>, the means of
          loss, accuracy, precision and recall, \<^verbatim>\<open>curr_best_accuracy_epoch\<close>\<close>
  | Torch_save string 'p
      \<comment> \<open>line 129: the file path and the parameters written\<close>
  | Print_early_stop float64
  | Print_cost

record ('p, 'o) state =
  params :: 'p
  optim :: 'o
  training :: bool
    \<comment> \<open>the mode flag set by \<^verbatim>\<open>model.train()\<close> and cleared by \<^verbatim>\<open>model.eval()\<close>\<close>
  curr_best_accuracy :: float64
  curr_best_accuracy_epoch :: float64
  effects :: "'p effect list"
    \<comment> \<open>what the run has printed and saved so far, oldest first\<close>

fun valid_pass ::
  "('p \<Rightarrow> 'b \<Rightarrow> float64 \<times> float64 \<times> float64 \<times> float64) \<Rightarrow> 'p \<Rightarrow> 'b list \<Rightarrow>
   float64 list \<times> float64 list \<times> float64 list \<times> float64 list \<Rightarrow>
   float64 list \<times> float64 list \<times> float64 list \<times> float64 list" where
  \<comment> \<open>lines 99--124: the loop over \<^verbatim>\<open>valid_loader\<close>, on
      \<^verbatim>\<open>(vlosses, vaccus, vprecs, vrecas)\<close>\<close>
  "valid_pass vb p [] acc = acc"
| "valid_pass vb p (b # bs) (vlosses, vaccus, vprecs, vrecas) =
     (case vb p b of (vloss, i_accuracy, i_precision, i_recall) \<Rightarrow>
        valid_pass vb p bs
          (vlosses @ [vloss], vaccus @ [i_accuracy], vprecs @ [i_precision],
           vrecas @ [i_recall]))"

definition checkpoint_path :: "string \<Rightarrow> nat \<Rightarrow> string" where
  \<comment> \<open>\<^verbatim>\<open>model_dir + 'epoch{}.ckpt'.format(epoch)\<close>\<close>
  "checkpoint_path mdir epoch = mdir @ ''epoch'' @ str_nat epoch @ ''.ckpt''"

definition save_checkpoint :: "string \<Rightarrow> nat \<Rightarrow> float64 \<Rightarrow> ('p, 'o) state \<Rightarrow> ('p, 'o) state" where
  \<comment> \<open>lines 126--129, on the value \<open>mean_accuracy\<close> of \<^verbatim>\<open>np.mean(vaccus)\<close>\<close>
  "save_checkpoint mdir epoch mean_accuracy s =
     (if f_gt mean_accuracy (curr_best_accuracy_epoch s) then
        let s1 = s\<lparr>curr_best_accuracy_epoch := mean_accuracy\<rparr> in
        if f_gt (curr_best_accuracy_epoch s1) (f_sub (curr_best_accuracy s1) (round64 (1 / 1000)))
        then s1\<lparr>effects := effects s1 @ [Torch_save (checkpoint_path mdir epoch) (params s1)]\<rparr>
        else s1
      else s)"

definition validation_round ::
  "('p, 'o, 'x) env \<Rightarrow> args \<Rightarrow> string \<Rightarrow> nat \<Rightarrow> nat \<Rightarrow> ('p, 'o) state \<Rightarrow> ('p, 'o) state" where
  \<comment> \<open>lines 97--139: the body of \<^verbatim>\<open>if (i + 1) % args.step_interval == 0\<close>\<close>
  "validation_round E A mdir epoch i s =
     (let s1 = s\<lparr>training := False\<rparr> in
      case valid_pass (valid_batch E) (params s1) (valid_loader E A epoch i) ([], [], [], []) of
        (vlosses, vaccus, vprecs, vrecas) \<Rightarrow>
          let s2 = save_checkpoint mdir epoch (np_mean vaccus) s1 in
          s2\<lparr>effects := effects s2 @
                [Print_progress (epoch + 1) (max_epoch_num A) (i + 1) (total_step E A)
                   (np_mean vlosses) (np_mean vaccus) (np_mean vprecs) (np_mean vrecas)
                   (curr_best_accuracy_epoch s2)]\<rparr>)"

definition train_step ::
  "('p, 'o, 'x) env \<Rightarrow> args \<Rightarrow> string \<Rightarrow> nat \<Rightarrow> nat \<Rightarrow> 'x list \<Rightarrow> ('p, 'o) state \<Rightarrow>
   error + ('p, 'o) state" where
  \<comment> \<open>lines 76--139: the body of the loop over \<^verbatim>\<open>enumerate(train_loader)\<close>;
      \<^verbatim>\<open>%\<close> raises when \<^verbatim>\<open>step_interval\<close> is 0\<close>
  "train_step E A mdir epoch i b s =
     (case train_batch E (params s) (optim s) b of (p', o') \<Rightarrow>
        let s1 = s\<lparr>params := p', optim := o', training := True\<rparr> in
        if step_interval A = 0 then Inl ZeroDivisionError
        else if (int i + 1) mod step_interval A = 0
        then Inr (validation_round E A mdir epoch i s1)
        else Inr s1)"

fun train_steps ::
  "('p, 'o, 'x) env \<Rightarrow> args \<Rightarrow> string \<Rightarrow> nat \<Rightarrow> nat \<Rightarrow> 'x list list \<Rightarrow> ('p, 'o) state \<Rightarrow>
   error + ('p, 'o) state" where
  \<comment> \<open>line 75: \<^verbatim>\<open>for i, sfeatures in enumerate(train_loader)\<close>, from index \<open>i\<close> on\<close>
  "train_steps E A mdir epoch i [] s = Inr s"
| "train_steps E A mdir epoch i (b # bs) s =
     (case train_step E A mdir epoch i b s of
        Inl e \<Rightarrow> Inl e
      | Inr s' \<Rightarrow> train_steps E A mdir epoch (Suc i) bs s')"

definition epoch_end :: "('p, 'o, 'x) env \<Rightarrow> args \<Rightarrow> nat \<Rightarrow> ('p, 'o) state \<Rightarrow> bool \<times> ('p, 'o) state" where
  \<comment> \<open>lines 140--146; the flag tells whether \<^verbatim>\<open>break\<close> was executed\<close>
  "epoch_end E A epoch s =
     (let s1 = s\<lparr>optim := scheduler_step E (optim s)\<rparr> in
      if f_gt (curr_best_accuracy_epoch s1) (curr_best_accuracy s1)
      then (False, s1\<lparr>curr_best_accuracy := curr_best_accuracy_epoch s1\<rparr>)
      else if min_epoch_num A - 1 \<le> int epoch
      then (True, s1\<lparr>effects := effects s1 @ [Print_early_stop (curr_best_accuracy s1)]\<rparr>)
      else (False, s1))"

definition train_epoch ::
  "('p, 'o, 'x) env \<Rightarrow> args \<Rightarrow> string \<Rightarrow> nat \<Rightarrow> ('p, 'o) state \<Rightarrow>
   error + bool \<times> ('p, 'o) state" where
  \<comment> \<open>lines 74--146: the body of \<^verbatim>\<open>for epoch in range(args.max_epoch_num)\<close>\<close>
  "train_epoch E A mdir epoch s =
     (case train_steps E A mdir epoch 0 (train_loader E A epoch)
             (s\<lparr>curr_best_accuracy_epoch := Fin 0\<rparr>) of
        Inl e \<Rightarrow> Inl e
      | Inr s' \<Rightarrow> Inr (epoch_end E A epoch s'))"

fun epochs ::
  "('p, 'o, 'x) env \<Rightarrow> args \<Rightarrow> string \<Rightarrow> nat list \<Rightarrow> ('p, 'o) state \<Rightarrow> error + ('p, 'o) state" where
  \<comment> \<open>line 73: the loop over the remaining epoch indices\<close>
  "epochs E A mdir [] s = Inr s"
| "epochs E A mdir (epoch # rest) s =
     (case train_epoch E A mdir epoch s of
        Inl e \<Rightarrow> Inl e
      | Inr (True, s') \<Rightarrow> Inr s'
      | Inr (False, s') \<Rightarrow> epochs E A mdir rest s')"

definition init_state :: "('p, 'o, 'x) env \<Rightarrow> args \<Rightarrow> ('p, 'o) state" where
  \<comment> \<open>the state on reaching line 73; \<^verbatim>\<open>curr_best_accuracy_epoch\<close> is not bound yet
      and is given the value that line 74 assigns\<close>
  "init_state E A =
     \<lparr>params = new_model E, optim = new_optimizer E, training = True,
      curr_best_accuracy = Fin 0, curr_best_accuracy_epoch = Fin 0,
      effects = [Print_start, Print_gpu (use_cuda E), Print_reading,
                 Print_total_step (total_step E A)]\<rparr>"

definition train ::
  "('p, 'o, 'x) env \<Rightarrow> args \<Rightarrow> filesystem \<Rightarrow> error + filesystem \<times> ('p, 'o) state" where
  \<comment> \<open>\<^verbatim>\<open>train(args)\<close>: the file system after the start-up phase and the final state.
      The two loaders are built first (lines 33 and 38), and building one raises for an
      empty data set or a batch size that is not positive.\<close>
  "train E A fs =
     (if train_dataset E = [] \<or> batch_size A \<le> 0 then Inl ValueError
      else if valid_dataset E = [] \<or> batch_size A \<le> 0 then Inl ValueError
      else
        case startup (abspath E) (model_dir A) fs of
          Inl e \<Rightarrow> Inl e
        | Inr (mdir, fs') \<Rightarrow>
            (case epochs E A mdir [0..<nat (max_epoch_num A)] (init_state E A) of
               Inl e \<Rightarrow> Inl e
             | Inr s \<Rightarrow> Inr (fs', s\<lparr>effects := effects s @ [Print_cost]\<rparr>)))"

section \<open>Notions used in the statements\<close>

text \<open>
  The loop of line 73 is followed from its start by \<open>epoch_head\<close>: the state in which it
  enters iteration \<open>k\<close>, when it gets that far without \<^verbatim>\<open>break\<close> or exception.
\<close>

fun epoch_head ::
  "('p, 'o, 'x) env \<Rightarrow> args \<Rightarrow> string \<Rightarrow> nat \<Rightarrow> ('p, 'o) state option" where
  "epoch_head E A mdir 0 = (if 0 < max_epoch_num A then Some (init_state E A) else None)"
| "epoch_head E A mdir (Suc k) =
     (case epoch_head E A mdir k of
        None \<Rightarrow> None
      | Some s \<Rightarrow>
          (case train_epoch E A mdir k s of
             Inr (False, s') \<Rightarrow> if int (Suc k) < max_epoch_num A then Some s' else None
           | _ \<Rightarrow> None))"

definition saves :: "'p effect list \<Rightarrow> (string \<times> 'p) list" where
  \<comment> \<open>the files written, in order: path and content of every \<^verbatim>\<open>torch.save\<close>\<close>
  "saves es = concat (map (\<lambda>e. case e of Torch_save path p \<Rightarrow> [(path, p)] | _ \<Rightarrow> []) es)"

definition progress_steps :: "'p effect list \<Rightarrow> nat list" where
  \<comment> \<open>the step numbers of the progress lines, one line per validation round\<close>
  "progress_steps es =
     concat (map (\<lambda>e. case e of Print_progress ep mx st tot l a p r c \<Rightarrow> [st] | _ \<Rightarrow> []) es)"




section \<open>A concrete run\<close>

text \<open>
  Small collaborators on which the definitions are evaluated: the batches are numbers, the
  parameters count the optimizer steps, and the accuracy on the validation batch is 0.9
  after the first step and 0.5 from then on.
\<close>

definition ex_env :: "(nat, nat, nat) env" where
  \<comment> \<open>one training sample and one validation sample, so one batch per pass\<close>
  "ex_env =
     \<lparr>use_cuda = False, abspath = (\<lambda>p. p), train_dataset = [0], valid_dataset = [0],
      train_keys = (\<lambda>epoch j. j), valid_keys = (\<lambda>epoch i j. j),
      new_model = 0, new_optimizer = 0,
      train_batch = (\<lambda>p opt b. (Suc p, opt)), scheduler_step = Suc,
      valid_batch =
        (\<lambda>p b. (Fin 0, if p = 1 then round64 (9 / 10) else round64 (1 / 2), Fin 0, Fin 0))\<rparr>"


definition ex_args :: args where
  "ex_args =
     \<lparr>model_dir = ''/m'', batch_size = 1, max_epoch_num = 2, min_epoch_num = 1,
      step_interval = 1\<rparr>"

definition ex_args_root :: args where
  "ex_args_root = ex_args\<lparr>model_dir := ''/''\<rparr>"

definition ex_effects0 :: "string \<Rightarrow> nat effect list" where
  \<comment> \<open>what the run of \<open>ex_env\<close> has printed and saved at the end of epoch 0\<close>
  "ex_effects0 mdir =
     [Print_start, Print_gpu False, Print_reading, Print_total_step 1,
      Torch_save (mdir @ ''epoch0.ckpt'') 1,
      Print_progress 1 2 1 1 (Fin 0) (round64 (9 / 10)) (Fin 0) (Fin 0) (round64 (9 / 10))]"

definition ex_head1 :: "string \<Rightarrow> (nat, nat) state" where
  \<comment> \<open>the state in which that run enters epoch 1\<close>
  "ex_head1 mdir =
     \<lparr>params = 1, optim = 1, training = False,
      curr_best_accuracy = round64 (9 / 10), curr_best_accuracy_epoch = round64 (9 / 10),
      effects = ex_effects0 mdir\<rparr>"

definition ex_round1 :: "string \<Rightarrow> (nat, nat) state" where
  \<comment> \<open>the state in which it enters the validation round of epoch 1\<close>
  "ex_round1 mdir =
     \<lparr>params = 2, optim = 1, training = True,
      curr_best_accuracy = round64 (9 / 10), curr_best_accuracy_epoch = Fin 0,
      effects = ex_effects0 mdir\<rparr>"

definition ex_steps1 :: "string \<Rightarrow> (nat, nat) state" where
  \<comment> \<open>the state after the training pass of epoch 1\<close>
  "ex_steps1 mdir =
     \<lparr>params = 2, optim = 1, training = False,
      curr_best_accuracy = round64 (9 / 10), curr_best_accuracy_epoch = Fin (1 / 2),
      effects = ex_effects0 mdir @
        [Print_progress 2 2 1 1 (Fin 0) (Fin (1 / 2)) (Fin 0) (Fin 0) (Fin (1 / 2))]\<rparr>"

definition ex_final :: "string \<Rightarrow> (nat, nat) state" where
  \<comment> \<open>the state in which it ends\<close>
  "ex_final mdir =
     \<lparr>params = 2, optim = 2, training = False,
      curr_best_accuracy = round64 (9 / 10), curr_best_accuracy_epoch = Fin (1 / 2),
      effects = ex_effects0 mdir @
        [Print_progress 2 2 1 1 (Fin 0) (Fin (1 / 2)) (Fin 0) (Fin 0) (Fin (1 / 2)),
         Print_early_stop (round64 (9 / 10)), Print_cost]\<rparr>"

definition ex_fs :: filesystem where
  "ex_fs =
     [(''/m'', Dir), (''/m/epoch3.ckpt'', File), (''/m/epoch10.ckpt'', File),
      (''/m/notes.txt'', File)]"

definition ex_root_fs :: filesystem where
  "ex_root_fs = [(''/epoch3.ckpt'', File), (''/epoch10.ckpt'', File), (''/notes.txt'', File)]"

definition ex_scores :: "nat \<Rightarrow> nat \<Rightarrow> float64 \<times> float64 \<times> float64 \<times> float64" where
  \<comment> \<open>per-batch scores with accuracy 0.9 on batch 0 and 0.7 on the others\<close>
  "ex_scores p b = (Fin 0, if b = 0 then round64 (9 / 10) else round64 (7 / 10), Fin 0, Fin 0)"

section \<open>Float arithmetic and comparisons\<close>

text \<open>
  Rounding is evaluated by rewriting; the values that the examples need are computed
  once. Apart from the two-batch example of claim C9, no statement below depends on how
  a sum is rounded.
\<close>

lemma bitlen_0: "bitlen 0 = 0" by (simp add: bitlen.simps)

lemma bitlen_1: "bitlen (Suc 0) = 1" by (simp add: bitlen.simps)

lemma bitlen_num: "bitlen (numeral k) = Suc (bitlen (numeral k div 2))" by (subst bitlen.simps) simp

lemma round64_0: "round64 0 = Fin 0"
  by (simp add: round64_def)

lemma pairwise_sum_short: "length a < 8 \<Longrightarrow> pairwise_sum a = foldl f_add (Fin 0) a"
  by (simp add: pairwise_sum.simps)

lemma np_mean_short:
  "length xs < 8 \<Longrightarrow>
     np_mean xs = f_div_count (f_add (Fin 0) (foldl f_add (Fin 0) xs)) (length xs)"
  by (simp add: np_mean_def pairwise_sum_short)

lemmas float_eval = round64_def ilog2_def pow2_def round_half_even_def Let_def bitlen_0 bitlen_1 bitlen_num
  np_mean_short f_sub_def f_gt_def f_le_def

lemma round64_1: "round64 1 = Fin 1"
  by (simp add: float_eval)

lemma round64_half: "round64 (1 / 2) = Fin (1 / 2)"
  by (simp add: float_eval)

lemma round64_milli: "round64 (1 / 1000) = Fin (1152921504606847 / 1152921504606846976)"
  by (simp add: float_eval)

lemma round64_9_10: "round64 (9 / 10) = Fin (8106479329266893 / 9007199254740992)"
  by (simp add: float_eval)

lemma round64_7_10: "round64 (7 / 10) = Fin (3152519739159347 / 4503599627370496)"
  by (simp add: float_eval)

lemma round64_8_10: "round64 (8 / 10) = Fin (3602879701896397 / 4503599627370496)"
  by (simp add: float_eval)

lemma np_mean_Nil: "np_mean [] = NaN"
  by (simp add: np_mean_short round64_0)

lemma np_mean_single_0: "np_mean [Fin 0] = Fin 0"
  by (simp add: np_mean_short round64_0 round64_1)

lemma np_mean_single_half: "np_mean [Fin (1 / 2)] = Fin (1 / 2)"
  by (simp add: float_eval)

lemma np_mean_single_9_10: "np_mean [round64 (9 / 10)] = round64 (9 / 10)"
  unfolding round64_9_10 by (simp add: float_eval)

lemma np_mean_example: "np_mean [round64 (9 / 10), round64 (7 / 10)] = round64 (8 / 10)"
  unfolding round64_9_10 round64_7_10 round64_8_10 by (simp add: float_eval)

lemma round64_1_10: "round64 (1 / 10) = Fin (3602879701896397 / 36028797018963968)"
  by (simp add: float_eval)

lemma pairwise_sum_block:
  "8 \<le> length a \<Longrightarrow> length a \<le> 128 \<Longrightarrow>
   pairwise_sum a =
     (case accumulate8 (take 8 a) (drop 8 a) of
        (r, rest) \<Rightarrow>
          foldl f_add
            (f_add (f_add (f_add (r ! 0) (r ! 1)) (f_add (r ! 2) (r ! 3)))
                   (f_add (f_add (r ! 4) (r ! 5)) (f_add (r ! 6) (r ! 7))))
            rest)"
  by (subst pairwise_sum.simps) simp

text \<open>
  Ten elements are added blockwise: the mean of ten times the float 0.1 is the float 0.1
  (adding them in order would end one unit in the last place below).
\<close>

lemma np_mean_ten:
  "np_mean [round64 (1 / 10), round64 (1 / 10), round64 (1 / 10), round64 (1 / 10),
            round64 (1 / 10), round64 (1 / 10), round64 (1 / 10), round64 (1 / 10),
            round64 (1 / 10), round64 (1 / 10)] = round64 (1 / 10)"
  unfolding round64_1_10
  by (simp add: np_mean_def pairwise_sum_block accumulate8.simps float_eval)

lemma NaN_not_f_gt: "\<not> f_gt NaN x"
  by (cases x) (simp_all add: f_gt_def)

lemma f_gt_imp_f_le: "f_gt x y \<Longrightarrow> f_le y x"
  by (cases x; cases y) (simp_all add: f_gt_def f_le_def)

lemma f_le_refl: "x \<noteq> NaN \<Longrightarrow> f_le x x"
  by (simp add: f_le_def)

lemma f_le_trans: "f_le x y \<Longrightarrow> f_le y z \<Longrightarrow> f_le x z"
  by (cases x; cases y; cases z) (auto simp: f_le_def)

lemma not_f_gt_iff_f_le: "x \<noteq> NaN \<Longrightarrow> y \<noteq> NaN \<Longrightarrow> (\<not> f_gt x y) = f_le x y"
  by (cases x; cases y) (auto simp: f_gt_def f_le_def)

section \<open>The pattern matcher\<close>









section \<open>The start-up phase\<close>











lemma startup_root: "startup ap ''/'' fs = Inr (''/'', fs)"
  by (simp add: startup_def)


section \<open>The data loaders\<close>

text \<open>
  A pass over a loader yields every sample of the data set once, in
  \<^verbatim>\<open>len(loader)\<close> batches, and yields no batch only for an empty data set or a batch
  size that is not positive.
\<close>

lemma length_shuffle: "length (shuffle key xs) = length xs"
  by (simp add: shuffle_def)

lemma mset_shuffle: "mset (shuffle key xs) = mset xs"
proof -
  define zs where "zs = zip (map key [0..<length xs]) xs"
  have a: "map snd zs = xs"
    by (simp add: zs_def map_snd_zip)
  have "mset (shuffle key xs) = image_mset snd (mset zs)"
    by (simp add: shuffle_def zs_def)
  also have "\<dots> = mset (map snd zs)"
    by simp
  finally show ?thesis
    unfolding a .
qed


lemma concat_batches: "0 < n \<Longrightarrow> concat (batches n xs) = xs"
proof (induction n xs rule: batches.induct)
  case (1 n xs)
  then show ?case by (subst batches.simps) simp
qed

lemma ceil_div_step:
  fixes m n :: nat
  assumes "0 < n" "0 < m"
  shows "(m + n - 1) div n = Suc ((m - n + n - 1) div n)"
proof -
  from assms(2) obtain k where m: "m = Suc k"
    by (cases m) auto
  have l: "(m + n - 1) div n = Suc (k div n)"
    using assms(1) by (simp add: m)
  show ?thesis
  proof (cases "n \<le> m")
    case True
    then have "m - n + n - 1 = k"
      by (simp add: m)
    with l show ?thesis by simp
  next
    case False
    then have "m - n + n - 1 = n - 1" and "k < n"
      by (simp_all add: m)
    with l assms(1) show ?thesis by simp
  qed
qed

lemma length_batches: "0 < n \<Longrightarrow> length (batches n xs) = (length xs + n - 1) div n"
proof (induction n xs rule: batches.induct)
  case (1 n xs)
  show ?case
  proof (cases "xs = []")
    case True
    with 1 show ?thesis by (subst batches.simps) simp
  next
    case False
    with 1 have IH: "length (batches n (drop n xs)) = (length xs - n + n - 1) div n"
      by simp
    from False have "0 < length xs" by simp
    from ceil_div_step [OF 1(2) this] IH False 1(2) show ?thesis
      by (subst batches.simps) simp
  qed
qed


lemma loader_pass:
  assumes "0 < batch_size A"
  shows "mset (concat (train_loader E A epoch)) = mset (train_dataset E)"
    and "mset (concat (valid_loader E A epoch i)) = mset (valid_dataset E)"
    and "length (train_loader E A epoch) = total_step E A"
  using assms
  by (simp_all add: train_loader_def valid_loader_def total_step_def concat_batches mset_shuffle
      length_batches length_shuffle)

section \<open>Validation rounds and training steps\<close>

lemma saves_append: "saves (xs @ ys) = saves xs @ saves ys"
  by (simp add: saves_def)

lemma progress_steps_append: "progress_steps (xs @ ys) = progress_steps xs @ progress_steps ys"
  by (simp add: progress_steps_def)

lemma valid_pass_eq:
  "valid_pass vb p bs (ls, as, ps, rs) =
     (ls @ map (\<lambda>b. fst (vb p b)) bs, as @ map (\<lambda>b. fst (snd (vb p b))) bs,
      ps @ map (\<lambda>b. fst (snd (snd (vb p b)))) bs, rs @ map (\<lambda>b. snd (snd (snd (vb p b)))) bs)"
  by (induction bs arbitrary: ls as ps rs) (auto split: prod.splits)

lemma save_checkpoint_fields:
  "params (save_checkpoint mdir epoch m s) = params s"
  "optim (save_checkpoint mdir epoch m s) = optim s"
  "training (save_checkpoint mdir epoch m s) = training s"
  "curr_best_accuracy (save_checkpoint mdir epoch m s) = curr_best_accuracy s"
  "curr_best_accuracy_epoch (save_checkpoint mdir epoch m s) =
     (if f_gt m (curr_best_accuracy_epoch s) then m else curr_best_accuracy_epoch s)"
  "effects (save_checkpoint mdir epoch m s) =
     effects s @
     (if f_gt m (curr_best_accuracy_epoch s) \<and>
         f_gt m (f_sub (curr_best_accuracy s) (round64 (1 / 1000)))
      then [Torch_save (checkpoint_path mdir epoch) (params s)] else [])"
  by (simp_all add: save_checkpoint_def Let_def)

lemma save_checkpoint_progress:
  "progress_steps (effects (save_checkpoint mdir epoch m s)) = progress_steps (effects s)"
  by (simp add: save_checkpoint_fields progress_steps_append) (simp add: progress_steps_def)

lemma validation_round_fields:
  "params (validation_round E A mdir epoch i s) = params s"
  "optim (validation_round E A mdir epoch i s) = optim s"
  "training (validation_round E A mdir epoch i s) = False"
  "curr_best_accuracy (validation_round E A mdir epoch i s) = curr_best_accuracy s"
  "curr_best_accuracy_epoch (validation_round E A mdir epoch i s) =
     (let m = np_mean (map (\<lambda>b. fst (snd (valid_batch E (params s) b))) (valid_loader E A epoch i))
      in if f_gt m (curr_best_accuracy_epoch s) then m else curr_best_accuracy_epoch s)"
  "saves (effects (validation_round E A mdir epoch i s)) =
     saves (effects s) @
     (let m = np_mean (map (\<lambda>b. fst (snd (valid_batch E (params s) b))) (valid_loader E A epoch i))
      in if f_gt m (curr_best_accuracy_epoch s) \<and>
         f_gt m (f_sub (curr_best_accuracy s) (round64 (1 / 1000)))
      then [(checkpoint_path mdir epoch, params s)] else [])"
  by (simp_all add: validation_round_def Let_def valid_pass_eq save_checkpoint_fields saves_append saves_def)

lemma validation_round_progress:
  "progress_steps (effects (validation_round E A mdir epoch i s)) =
     progress_steps (effects s) @ [Suc i]"
  by (simp add: validation_round_def Let_def progress_steps_append save_checkpoint_progress
      split: prod.splits) (simp add: progress_steps_def)

lemma validation_round_last:
  "last (effects (validation_round E A mdir epoch i s)) =
     Print_progress (epoch + 1) (max_epoch_num A) (i + 1) (total_step E A)
       (np_mean (map (\<lambda>b. fst (valid_batch E (params s) b)) (valid_loader E A epoch i)))
       (np_mean (map (\<lambda>b. fst (snd (valid_batch E (params s) b))) (valid_loader E A epoch i)))
       (np_mean (map (\<lambda>b. fst (snd (snd (valid_batch E (params s) b)))) (valid_loader E A epoch i)))
       (np_mean (map (\<lambda>b. snd (snd (snd (valid_batch E (params s) b)))) (valid_loader E A epoch i)))
       (curr_best_accuracy_epoch (validation_round E A mdir epoch i s))"
  by (simp add: validation_round_def Let_def valid_pass_eq)

lemma train_step_cases:
  "train_step E A mdir epoch i b s =
     (let s1 = s\<lparr>params := fst (train_batch E (params s) (optim s) b),
                  optim := snd (train_batch E (params s) (optim s) b), training := True\<rparr>
      in if step_interval A = 0 then Inl ZeroDivisionError
         else if step_interval A dvd int (Suc i) then Inr (validation_round E A mdir epoch i s1)
         else Inr s1)"
  by (simp add: train_step_def Let_def split: prod.splits) (auto simp: dvd_eq_mod_eq_0 add.commute)

lemma train_step_cba:
  "train_step E A mdir epoch i b s = Inr s' \<Longrightarrow> curr_best_accuracy s' = curr_best_accuracy s"
  by (auto simp: train_step_cases Let_def validation_round_fields split: if_splits)

lemma train_step_params:
  "train_step E A mdir epoch i b s = Inr s' \<Longrightarrow>
     params s' = fst (train_batch E (params s) (optim s) b) \<and>
     optim s' = snd (train_batch E (params s) (optim s) b)"
  by (auto simp: train_step_cases Let_def validation_round_fields split: if_splits)

lemma train_step_cbe:
  "train_step E A mdir epoch i b s = Inr s' \<Longrightarrow> curr_best_accuracy_epoch s \<noteq> NaN \<Longrightarrow>
     f_le (curr_best_accuracy_epoch s) (curr_best_accuracy_epoch s')"
  by (auto simp: train_step_cases Let_def validation_round_fields f_gt_imp_f_le f_le_refl split: if_splits)

lemma train_step_save_paths:
  "train_step E A mdir epoch i b s = Inr s' \<Longrightarrow>
     fst ` set (saves (effects s')) \<subseteq> insert (checkpoint_path mdir epoch) (fst ` set (saves (effects s)))"
  by (auto simp: train_step_cases Let_def validation_round_fields split: if_splits)

lemma train_steps_cba:
  "train_steps E A mdir epoch i bs s = Inr s' \<Longrightarrow> curr_best_accuracy s' = curr_best_accuracy s"
proof (induction bs arbitrary: i s)
  case Nil
  then show ?case by simp
next
  case (Cons b bs)
  then show ?case
    by (auto split: sum.splits dest: train_step_cba)
qed

lemma train_steps_cbe:
  "train_steps E A mdir epoch i bs s = Inr s' \<Longrightarrow> curr_best_accuracy_epoch s \<noteq> NaN \<Longrightarrow>
     f_le (curr_best_accuracy_epoch s) (curr_best_accuracy_epoch s')"
proof (induction bs arbitrary: i s)
  case Nil
  then show ?case by (simp add: f_le_refl)
next
  case (Cons b bs)
  from Cons.prems obtain s1 where
    1: "train_step E A mdir epoch i b s = Inr s1" and
    2: "train_steps E A mdir epoch (Suc i) bs s1 = Inr s'"
    by (auto split: sum.splits)
  from train_step_cbe [OF 1 Cons.prems(2)]
  have 3: "f_le (curr_best_accuracy_epoch s) (curr_best_accuracy_epoch s1)" .
  then have "curr_best_accuracy_epoch s1 \<noteq> NaN" by (simp add: f_le_def)
  from Cons.IH [OF 2 this] 3 show ?case by (rule f_le_trans [rotated])
qed

lemma train_steps_append:
  "train_steps E A mdir epoch i (bs1 @ bs2) s =
     (case train_steps E A mdir epoch i bs1 s of
        Inl e \<Rightarrow> Inl e
      | Inr s1 \<Rightarrow> train_steps E A mdir epoch (i + length bs1) bs2 s1)"
  by (induction bs1 arbitrary: i s) (auto split: sum.splits)

lemma train_steps_progress:
  "step_interval A \<noteq> 0 \<Longrightarrow>
   \<exists>s'. train_steps E A mdir epoch i bs s = Inr s' \<and>
     progress_steps (effects s') =
       progress_steps (effects s) @
       filter (\<lambda>k. step_interval A dvd int k) [Suc i..<Suc (i + length bs)]"
proof (induction bs arbitrary: i s)
  case Nil
  then show ?case by simp
next
  case (Cons b bs)
  have "\<exists>s1. train_step E A mdir epoch i b s = Inr s1 \<and>
      progress_steps (effects s1) =
        progress_steps (effects s) @ (if step_interval A dvd int (Suc i) then [Suc i] else [])"
    using Cons.prems
    by (cases "step_interval A dvd int (Suc i)")
      (simp_all add: train_step_cases Let_def validation_round_progress)
  then obtain s1 where 1: "train_step E A mdir epoch i b s = Inr s1" and
    2: "progress_steps (effects s1) =
          progress_steps (effects s) @ (if step_interval A dvd int (Suc i) then [Suc i] else [])"
    by blast
  define rest where "rest = [Suc (Suc i)..<Suc (Suc i + length bs)]"
  from Cons.IH [OF Cons.prems, of "Suc i" s1] obtain s' where
    3: "train_steps E A mdir epoch (Suc i) bs s1 = Inr s'" and
    4: "progress_steps (effects s') =
          progress_steps (effects s1) @ filter (\<lambda>k. step_interval A dvd int k) rest"
    unfolding rest_def by blast
  have 5: "[Suc i..<Suc (i + length (b # bs))] = Suc i # rest"
    unfolding rest_def by (subst upt_conv_Cons) simp_all
  show ?case
    unfolding 5 using 1 2 3 4 by simp
qed

lemma train_steps_save_paths:
  "train_steps E A mdir epoch i bs s = Inr s' \<Longrightarrow>
     fst ` set (saves (effects s')) \<subseteq> insert (checkpoint_path mdir epoch) (fst ` set (saves (effects s)))"
proof (induction bs arbitrary: i s)
  case Nil
  then show ?case by auto
next
  case (Cons b bs)
  from Cons.prems obtain s1 where
    1: "train_step E A mdir epoch i b s = Inr s1" and
    2: "train_steps E A mdir epoch (Suc i) bs s1 = Inr s'"
    by (auto split: sum.splits)
  from train_step_save_paths [OF 1] Cons.IH [OF 2] show ?case by blast
qed

section \<open>Epochs\<close>

lemma epoch_end_cba:
  "curr_best_accuracy s \<noteq> NaN \<Longrightarrow>
     f_le (curr_best_accuracy s) (curr_best_accuracy (snd (epoch_end E A epoch s)))"
  by (auto simp: epoch_end_def Let_def f_gt_imp_f_le f_le_refl)

lemma epoch_end_saves: "saves (effects (snd (epoch_end E A epoch s))) = saves (effects s)"
  by (simp add: epoch_end_def Let_def saves_append) (simp add: saves_def)

lemma train_epoch_cba:
  assumes "train_epoch E A mdir epoch s = Inr (stop, s')" and "curr_best_accuracy s \<noteq> NaN"
  shows "f_le (curr_best_accuracy s) (curr_best_accuracy s')"
proof -
  from assms(1) obtain s1 where
    1: "train_steps E A mdir epoch 0 (train_loader E A epoch)
          (s\<lparr>curr_best_accuracy_epoch := Fin 0\<rparr>) = Inr s1" and
    2: "epoch_end E A epoch s1 = (stop, s')"
    by (auto simp: train_epoch_def split: sum.splits)
  from train_steps_cba [OF 1] have "curr_best_accuracy s1 = curr_best_accuracy s" by simp
  with epoch_end_cba [of s1 E A epoch] assms(2) 2 show ?thesis by simp
qed

lemma train_epoch_save_paths:
  assumes "train_epoch E A mdir epoch s = Inr (stop, s')"
  shows "fst ` set (saves (effects s')) \<subseteq>
     insert (checkpoint_path mdir epoch) (fst ` set (saves (effects s)))"
proof -
  from assms obtain s1 where
    1: "train_steps E A mdir epoch 0 (train_loader E A epoch)
          (s\<lparr>curr_best_accuracy_epoch := Fin 0\<rparr>) = Inr s1" and
    2: "epoch_end E A epoch s1 = (stop, s')"
    by (auto simp: train_epoch_def split: sum.splits)
  from 2 epoch_end_saves [of E A epoch s1] have "saves (effects s') = saves (effects s1)" by simp
  with train_steps_save_paths [OF 1] show ?thesis by simp
qed

lemma epochs_cba:
  "epochs E A mdir es s = Inr s' \<Longrightarrow> curr_best_accuracy s \<noteq> NaN \<Longrightarrow>
     f_le (curr_best_accuracy s) (curr_best_accuracy s')"
proof (induction es arbitrary: s)
  case Nil
  then show ?case by (simp add: f_le_refl)
next
  case (Cons e es)
  from Cons.prems(1) obtain stop s1 where 1: "train_epoch E A mdir e s = Inr (stop, s1)"
    and 2: "if stop then s' = s1 else epochs E A mdir es s1 = Inr s'"
    by (auto split: sum.splits prod.splits bool.splits)
  from train_epoch_cba [OF 1 Cons.prems(2)]
  have 3: "f_le (curr_best_accuracy s) (curr_best_accuracy s1)" .
  show ?case
  proof (cases stop)
    case True
    with 2 3 show ?thesis by simp
  next
    case False
    with 2 have 4: "epochs E A mdir es s1 = Inr s'" by simp
    from 3 have "curr_best_accuracy s1 \<noteq> NaN" by (simp add: f_le_def)
    from Cons.IH [OF 4 this] 3 show ?thesis by (rule f_le_trans [rotated])
  qed
qed

lemma epochs_save_paths:
  "epochs E A mdir es s = Inr s' \<Longrightarrow>
     fst ` set (saves (effects s')) \<subseteq> checkpoint_path mdir ` set es \<union> fst ` set (saves (effects s))"
proof (induction es arbitrary: s)
  case Nil
  then show ?case by auto
next
  case (Cons e es)
  from Cons.prems(1) obtain stop s1 where 1: "train_epoch E A mdir e s = Inr (stop, s1)"
    and 2: "if stop then s' = s1 else epochs E A mdir es s1 = Inr s'"
    by (auto split: sum.splits prod.splits bool.splits)
  note 3 = train_epoch_save_paths [OF 1]
  show ?case
  proof (cases stop)
    case True
    with 2 3 show ?thesis by auto
  next
    case False
    with 2 have "epochs E A mdir es s1 = Inr s'" by simp
    from Cons.IH [OF this] 3 show ?thesis by auto
  qed
qed

lemma epoch_head_cba_not_NaN:
  "epoch_head E A mdir k = Some s \<Longrightarrow> f_le (Fin 0) (curr_best_accuracy s)"
proof (induction k arbitrary: s)
  case 0
  then show ?case by (auto simp: init_state_def f_le_def split: if_splits)
next
  case (Suc k)
  from Suc.prems obtain s0 where
    1: "epoch_head E A mdir k = Some s0" and 2: "train_epoch E A mdir k s0 = Inr (False, s)"
    by (auto split: option.splits sum.splits prod.splits bool.splits if_splits)
  from Suc.IH [OF 1] have 3: "f_le (Fin 0) (curr_best_accuracy s0)" .
  then have "curr_best_accuracy s0 \<noteq> NaN" by (simp add: f_le_def)
  from train_epoch_cba [OF 2 this] 3 show ?case by (rule f_le_trans [rotated])
qed

lemma epoch_head_Suc:
  "epoch_head E A mdir (Suc k) = Some s' \<Longrightarrow>
     \<exists>s. epoch_head E A mdir k = Some s \<and> train_epoch E A mdir k s = Inr (False, s') \<and>
         int (Suc k) < max_epoch_num A"
  by (auto split: option.splits sum.splits prod.splits bool.splits if_splits)

lemma epoch_head_mono:
  "epoch_head E A mdir (j + d) = Some s' \<Longrightarrow> epoch_head E A mdir j = Some s \<Longrightarrow>
     f_le (curr_best_accuracy s) (curr_best_accuracy s')"
proof (induction d arbitrary: s')
  case 0
  then show ?case using epoch_head_cba_not_NaN [of E A mdir j s] by (simp add: f_le_def)
next
  case (Suc d)
  from epoch_head_Suc [of E A mdir "j + d" s'] Suc.prems(1) obtain s0 where
    1: "epoch_head E A mdir (j + d) = Some s0" and 2: "train_epoch E A mdir (j + d) s0 = Inr (False, s')"
    by auto
  from Suc.IH [OF 1 Suc.prems(2)] have 3: "f_le (curr_best_accuracy s) (curr_best_accuracy s0)" .
  then have "curr_best_accuracy s0 \<noteq> NaN" by (simp add: f_le_def)
  from train_epoch_cba [OF 2 this] 3 show ?case by (rule f_le_trans [rotated])
qed

lemma epoch_head_bound: "epoch_head E A mdir k = Some s \<Longrightarrow> int k < max_epoch_num A"
  by (cases k) (auto split: option.splits sum.splits prod.splits bool.splits if_splits)

lemma epochs_from_head:
  "epoch_head E A mdir k = Some s \<Longrightarrow>
     epochs E A mdir [0..<nat (max_epoch_num A)] (init_state E A) =
     epochs E A mdir [k..<nat (max_epoch_num A)] s"
proof (induction k arbitrary: s)
  case 0
  then show ?case by (auto split: if_splits)
next
  case (Suc k)
  from epoch_head_Suc [OF Suc.prems] obtain s0 where
    1: "epoch_head E A mdir k = Some s0" and 2: "train_epoch E A mdir k s0 = Inr (False, s)" and
    3: "int (Suc k) < max_epoch_num A"
    by auto
  from 3 have "[k..<nat (max_epoch_num A)] = k # [Suc k..<nat (max_epoch_num A)]"
    by (simp add: upt_conv_Cons)
  with Suc.IH [OF 1] 2 show ?case by simp
qed

section \<open>Evaluation of the concrete run\<close>

lemma ex_gate_epoch0: "f_gt (round64 (9 / 10)) (f_sub (Fin 0) (round64 (1 / 1000)))"
  unfolding round64_9_10 round64_milli by (simp add: float_eval)

lemma ex_gate_epoch1: "\<not> f_gt (Fin (1 / 2)) (f_sub (round64 (9 / 10)) (round64 (1 / 1000)))"
  unfolding round64_9_10 round64_milli by (simp add: float_eval)

lemma ex_compare:
  "f_gt (round64 (9 / 10)) (Fin 0)" "f_gt (Fin (1 / 2)) (Fin 0)"
  "\<not> f_gt (Fin (1 / 2)) (round64 (9 / 10))" "f_le (Fin (1 / 2)) (round64 (9 / 10))"
  "f_le (Fin 0) (round64 (9 / 10))" "\<not> f_gt (Fin 0) (Fin 0)"
  unfolding round64_9_10 by (simp_all add: f_gt_def f_le_def)

lemma ex_env_fields:
  "use_cuda ex_env = False" "abspath ex_env = (\<lambda>p. p)" "new_model ex_env = 0"
  "new_optimizer ex_env = 0" "train_batch ex_env = (\<lambda>p opt b. (Suc p, opt))"
  "scheduler_step ex_env = Suc"
  "valid_batch ex_env =
     (\<lambda>p b. (Fin 0, if p = 1 then round64 (9 / 10) else round64 (1 / 2), Fin 0, Fin 0))"
  by (simp_all add: ex_env_def)

lemma ex_args_fields:
  "model_dir ex_args = ''/m''" "max_epoch_num ex_args = 2" "min_epoch_num ex_args = 1"
  "step_interval ex_args = 1"
  "model_dir ex_args_root = ''/''" "max_epoch_num ex_args_root = 2"
  "min_epoch_num ex_args_root = 1" "step_interval ex_args_root = 1"
  by (simp_all add: ex_args_def ex_args_root_def)

lemma ex_datasets: "train_dataset ex_env = [0]" "valid_dataset ex_env = [0]"
  by (simp_all add: ex_env_def)

lemma ex_loaders:
  assumes "batch_size A = 1"
  shows "train_loader ex_env A k = [[0]]" and "valid_loader ex_env A k i = [[0]]"
    and "total_step ex_env A = 1"
  using assms
  by (simp_all add: train_loader_def valid_loader_def total_step_def shuffle_def batches.simps
      ex_env_def)

lemma ex_batch_size: "batch_size ex_args = 1" "batch_size ex_args_root = 1"
  by (simp_all add: ex_args_def ex_args_root_def)

lemmas ex_loaders_args = ex_loaders [OF ex_batch_size(1)] ex_loaders [OF ex_batch_size(2)]

lemmas run_eval = ex_loaders_args train_epoch_def train_step_def validation_round_def save_checkpoint_def
  epoch_end_def init_state_def checkpoint_path_def str_nat.simps digit_char_def Let_def
  np_mean_single_0 np_mean_single_half np_mean_single_9_10 np_mean_Nil round64_half
  ex_gate_epoch0 ex_gate_epoch1 ex_compare NaN_not_f_gt

lemmas ex_defs = ex_env_fields ex_args_fields
  ex_effects0_def ex_head1_def ex_round1_def ex_steps1_def ex_final_def

lemma ex_head1_reached: "epoch_head ex_env ex_args mdir 1 = Some (ex_head1 mdir)"
proof -
  have "epoch_head ex_env ex_args mdir (Suc 0) = Some (ex_head1 mdir)"
    by (simp add: ex_defs run_eval)
  then show ?thesis by simp
qed

lemma ex_round1_step:
  "train_step ex_env ex_args mdir 1 0 [0] (ex_head1 mdir\<lparr>curr_best_accuracy_epoch := Fin 0\<rparr>) =
     Inr (validation_round ex_env ex_args mdir 1 0 (ex_round1 mdir))"
  by (simp add: ex_defs train_step_def numeral_2_eq_2)

lemma ex_round1_result: "validation_round ex_env ex_args mdir 1 0 (ex_round1 mdir) = ex_steps1 mdir"
  by (simp add: ex_defs run_eval)

lemma ex_steps1_eq:
  "train_steps ex_env ex_args mdir 1 0 (train_loader ex_env ex_args 1)
     (ex_head1 mdir\<lparr>curr_best_accuracy_epoch := Fin 0\<rparr>) = Inr (ex_steps1 mdir)"
  using ex_round1_step [of mdir] ex_round1_result [of mdir] by (simp add: ex_loaders_args)

lemma upt_0_2: "[0..<2] = [0, Suc 0]"
  by (simp add: upt_rec numeral_2_eq_2)

lemma ex_epochs:
  "epochs ex_env ex_args mdir [0..<nat (max_epoch_num ex_args)] (init_state ex_env ex_args) =
     Inr (ex_final mdir\<lparr>effects := butlast (effects (ex_final mdir))\<rparr>)"
proof -
  have "[0..<nat (max_epoch_num ex_args)] = [0, Suc 0]"
    by (simp add: ex_args_def upt_0_2)
  then show ?thesis
    by (simp add: ex_defs run_eval)
qed

lemma ex_epochs_root:
  "epochs ex_env ex_args_root mdir [0..<nat (max_epoch_num ex_args_root)]
     (init_state ex_env ex_args_root) =
     Inr (ex_final mdir\<lparr>effects := butlast (effects (ex_final mdir))\<rparr>)"
proof -
  have "[0..<nat (max_epoch_num ex_args_root)] = [0, Suc 0]"
    by (simp add: ex_args_root_def ex_args_def upt_0_2)
  then show ?thesis
    by (simp add: ex_defs run_eval)
qed


lemma ex_startup:
  "startup (abspath ex_env) (model_dir ex_args) ex_fs =
     Inr (''/m/'', [(''/m'', Dir), (''/m/notes.txt'', File)])"
  by (simp add: ex_env_def ex_args_def ex_fs_def startup_def rstrip_def path_exists_def
      listdir_def child_name_def remove_def model_regex_def RLit_def RPlus_def
      is_digit_def Let_def)

lemma ex_train:
  "train ex_env ex_args ex_fs = Inr ([(''/m'', Dir), (''/m/notes.txt'', File)], ex_final ''/m/'')"
  by (simp add: train_def ex_datasets ex_batch_size ex_startup ex_epochs)
    (simp add: ex_final_def butlast_append)

lemma ex_train_root: "train ex_env ex_args_root ex_root_fs = Inr (ex_root_fs, ex_final ''/'')"
proof -
  have "model_dir ex_args_root = ''/''"
    by (simp add: ex_args_root_def)
  then show ?thesis
    by (simp add: train_def ex_datasets ex_batch_size startup_root ex_epochs_root)
      (simp add: ex_final_def butlast_append)
qed

section \<open>The claims\<close>

subsection \<open>C1: early stopping at the end of an epoch\<close>

text \<open>
  Claim C1. Let the run enter epoch \<open>k\<close> in state \<open>s\<close> and let the training pass of that
  epoch end in state \<open>s'\<close>. Then \<^verbatim>\<open>break\<close> (line 146) is executed at the end of the epoch
  if and only if \<^verbatim>\<open>curr_best_accuracy_epoch <= curr_best_accuracy\<close> and
  \<open>k \<ge> min_epoch_num - 1\<close>. In that case the whole run ends there: its final state is
  \<open>s'\<close> after \<^verbatim>\<open>scheduler.step()\<close>, with the early-stop line printed. Otherwise the run
  goes on with the remaining epochs \<open>k + 1, \<dots>, max_epoch_num - 1\<close> (none when \<open>k\<close> was
  the last: the run then ends normally), after raising \<^verbatim>\<open>curr_best_accuracy\<close> when the
  epoch improved on it.
\<close>

theorem early_stop_iff:
  assumes "epoch_head E A mdir k = Some s"
    and "train_steps E A mdir k 0 (train_loader E A k) (s\<lparr>curr_best_accuracy_epoch := Fin 0\<rparr>) = Inr s'"
  shows "fst (epoch_end E A k s') =
     (f_le (curr_best_accuracy_epoch s') (curr_best_accuracy s') \<and> min_epoch_num A - 1 \<le> int k) \<and>
   epochs E A mdir [0..<nat (max_epoch_num A)] (init_state E A) =
     (let st = s'\<lparr>optim := scheduler_step E (optim s')\<rparr> in
      if f_le (curr_best_accuracy_epoch s') (curr_best_accuracy s') \<and> min_epoch_num A - 1 \<le> int k
      then Inr (st\<lparr>effects := effects st @ [Print_early_stop (curr_best_accuracy s')]\<rparr>)
      else epochs E A mdir [Suc k..<nat (max_epoch_num A)]
             (if f_le (curr_best_accuracy_epoch s') (curr_best_accuracy s') then st
              else st\<lparr>curr_best_accuracy := curr_best_accuracy_epoch s'\<rparr>))"
proof -
  from epoch_head_bound [OF assms(1)]
  have upt: "[k..<nat (max_epoch_num A)] = k # [Suc k..<nat (max_epoch_num A)]"
    by (simp add: upt_conv_Cons)
  from epoch_head_cba_not_NaN [OF assms(1)] train_steps_cba [OF assms(2)]
  have a: "curr_best_accuracy s' \<noteq> NaN" by (simp add: f_le_def)
  from train_steps_cbe [OF assms(2)]
  have b: "curr_best_accuracy_epoch s' \<noteq> NaN" by (simp add: f_le_def)
  have c: "f_gt (curr_best_accuracy_epoch s') (curr_best_accuracy s') =
      (\<not> f_le (curr_best_accuracy_epoch s') (curr_best_accuracy s'))"
    using not_f_gt_iff_f_le [OF b a] by blast
  have "fst (epoch_end E A k s') =
     (f_le (curr_best_accuracy_epoch s') (curr_best_accuracy s') \<and> min_epoch_num A - 1 \<le> int k)"
    by (simp add: epoch_end_def Let_def c)
  moreover have "epochs E A mdir [0..<nat (max_epoch_num A)] (init_state E A) =
     (let st = s'\<lparr>optim := scheduler_step E (optim s')\<rparr> in
      if f_le (curr_best_accuracy_epoch s') (curr_best_accuracy s') \<and> min_epoch_num A - 1 \<le> int k
      then Inr (st\<lparr>effects := effects st @ [Print_early_stop (curr_best_accuracy s')]\<rparr>)
      else epochs E A mdir [Suc k..<nat (max_epoch_num A)]
             (if f_le (curr_best_accuracy_epoch s') (curr_best_accuracy s') then st
              else st\<lparr>curr_best_accuracy := curr_best_accuracy_epoch s'\<rparr>))"
    unfolding epochs_from_head [OF assms(1)] upt
    by (simp add: train_epoch_def assms(2) epoch_end_def Let_def c)
  ultimately show ?thesis ..
qed

text \<open>
  In the concrete run, epoch 1 reaches accuracy 0.5 against a best of 0.9 and
  \<open>1 \<ge> min_epoch_num - 1 = 0\<close>: the run halts after epoch 1.
\<close>

theorem early_stop_iff_witness:
  "fst (epoch_end ex_env ex_args 1 (ex_steps1 ''/m/'')) \<and>
   f_le (curr_best_accuracy_epoch (ex_steps1 ''/m/'')) (curr_best_accuracy (ex_steps1 ''/m/'')) \<and>
   min_epoch_num ex_args - 1 \<le> int 1 \<and>
   epochs ex_env ex_args ''/m/'' [0..<nat (max_epoch_num ex_args)] (init_state ex_env ex_args) =
     Inr (ex_steps1 ''/m/''\<lparr>optim := 2,
            effects := effects (ex_steps1 ''/m/'') @ [Print_early_stop (round64 (9 / 10))]\<rparr>)"
  using early_stop_iff [OF ex_head1_reached ex_steps1_eq, of "''/m/''"]
  by (simp add: ex_steps1_def ex_compare ex_env_def ex_args_def numeral_2_eq_2)

subsection \<open>C2: the checkpoint gate of a validation round\<close>

text \<open>
  Claim C2, amended. In a validation round with mean accuracy \<open>m\<close>, one file is written,
  holding the current parameters under the path of the current epoch, if and only if
  \<open>m\<close> strictly exceeds \<^verbatim>\<open>curr_best_accuracy_epoch\<close> and \<open>m\<close> exceeds
  \<^verbatim>\<open>curr_best_accuracy - 0.001\<close>; otherwise no file is written. Whenever \<open>m\<close> strictly
  exceeds \<^verbatim>\<open>curr_best_accuracy_epoch\<close>, that variable becomes \<open>m\<close>, also when no file is
  written; only when \<open>m\<close> does not exceed it is it left as it was.
  \<^verbatim>\<open>curr_best_accuracy\<close>, the parameters and the optimizer state are never changed by
  the round.
\<close>

theorem checkpoint_written_iff:
  "let m = np_mean (map (\<lambda>b. fst (snd (valid_batch E (params s) b))) (valid_loader E A epoch i));
       s' = validation_round E A mdir epoch i s
   in saves (effects s') =
        saves (effects s) @
        (if f_gt m (curr_best_accuracy_epoch s) \<and>
            f_gt m (f_sub (curr_best_accuracy s) (round64 (1 / 1000)))
         then [(checkpoint_path mdir epoch, params s)] else []) \<and>
      curr_best_accuracy_epoch s' =
        (if f_gt m (curr_best_accuracy_epoch s) then m else curr_best_accuracy_epoch s) \<and>
      curr_best_accuracy s' = curr_best_accuracy s \<and>
      params s' = params s \<and> optim s' = optim s"
  by (simp add: validation_round_fields Let_def)

text \<open>
  In the first round of the concrete run the gate is open: the file of epoch 0 is
  written and \<^verbatim>\<open>curr_best_accuracy_epoch\<close> becomes 0.9.
\<close>

theorem checkpoint_written_iff_witness:
  "saves (effects (validation_round ex_env ex_args ''/m/'' 0 0
       (init_state ex_env ex_args\<lparr>params := 1\<rparr>))) = [(''/m/epoch0.ckpt'', 1)] \<and>
   curr_best_accuracy_epoch (validation_round ex_env ex_args ''/m/'' 0 0
       (init_state ex_env ex_args\<lparr>params := 1\<rparr>)) = round64 (9 / 10)"
  using checkpoint_written_iff [where E = ex_env and A = ex_args and mdir = "''/m/''"
      and epoch = 0 and i = 0 and s = "init_state ex_env ex_args\<lparr>params := 1\<rparr>"]
  by (simp add: ex_loaders_args ex_env_fields init_state_def saves_def np_mean_single_9_10 ex_gate_epoch0 ex_compare
      checkpoint_path_def str_nat.simps digit_char_def Let_def)

text \<open>
  The claim as stated lets no state change when the gate fails. In the validation round
  of epoch 1 of the concrete run, \<^verbatim>\<open>curr_best_accuracy\<close> is 0.9,
  \<^verbatim>\<open>curr_best_accuracy_epoch\<close> is 0 and the mean accuracy is 0.5: the gate fails, since
  0.5 does not exceed 0.9 - 0.001, and no file is written, yet line 127 has assigned 0.5
  to \<^verbatim>\<open>curr_best_accuracy_epoch\<close>.
\<close>

theorem checkpoint_gate_counterexample:
  "curr_best_accuracy (ex_round1 ''/m/'') = round64 (9 / 10) \<and>
   curr_best_accuracy_epoch (ex_round1 ''/m/'') = Fin 0 \<and>
   last (effects (validation_round ex_env ex_args ''/m/'' 1 0 (ex_round1 ''/m/''))) =
     Print_progress 2 2 1 1 (Fin 0) (Fin (1 / 2)) (Fin 0) (Fin 0) (Fin (1 / 2)) \<and>
   \<not> (f_gt (Fin (1 / 2)) (curr_best_accuracy_epoch (ex_round1 ''/m/'')) \<and>
      f_gt (Fin (1 / 2)) (f_sub (curr_best_accuracy (ex_round1 ''/m/'')) (round64 (1 / 1000)))) \<and>
   saves (effects (validation_round ex_env ex_args ''/m/'' 1 0 (ex_round1 ''/m/''))) =
     saves (effects (ex_round1 ''/m/'')) \<and>
   curr_best_accuracy_epoch (validation_round ex_env ex_args ''/m/'' 1 0 (ex_round1 ''/m/'')) \<noteq>
     curr_best_accuracy_epoch (ex_round1 ''/m/'')"
  unfolding ex_round1_result
  by (simp add: ex_round1_def ex_steps1_def ex_gate_epoch1 saves_append) (simp add: saves_def)

subsection \<open>C3: the best accuracy of the run never decreases\<close>

text \<open>
  Claim C3. \<^verbatim>\<open>curr_best_accuracy\<close> starts at 0. A training step, with or without a
  validation round, leaves it as it is. The end of an epoch in a run leaves it as it is
  or raises it. Hence its values on entering the epochs of a run are non-decreasing, and
  none exceeds the value in the final state.
\<close>

theorem curr_best_accuracy_monotone:
  "curr_best_accuracy (init_state E A) = Fin 0 \<and>
   (train_step E A mdir epoch i b s = Inr s' \<longrightarrow> curr_best_accuracy s' = curr_best_accuracy s) \<and>
   (epoch_head E A mdir k = Some sk \<and> train_epoch E A mdir k sk = Inr (stop, sk') \<longrightarrow>
      f_le (curr_best_accuracy sk) (curr_best_accuracy sk')) \<and>
   (epoch_head E A mdir j = Some sj \<and> epoch_head E A mdir k = Some sk \<and> j \<le> k \<longrightarrow>
      f_le (curr_best_accuracy sj) (curr_best_accuracy sk)) \<and>
   (epoch_head E A mdir k = Some sk \<and>
    epochs E A mdir [0..<nat (max_epoch_num A)] (init_state E A) = Inr sf \<longrightarrow>
      f_le (curr_best_accuracy sk) (curr_best_accuracy sf))"
proof (intro conjI impI)
  show "curr_best_accuracy (init_state E A) = Fin 0"
    by (simp add: init_state_def)
next
  assume "train_step E A mdir epoch i b s = Inr s'"
  then show "curr_best_accuracy s' = curr_best_accuracy s"
    by (rule train_step_cba)
next
  assume a: "epoch_head E A mdir k = Some sk \<and> train_epoch E A mdir k sk = Inr (stop, sk')"
  with epoch_head_cba_not_NaN [of E A mdir k sk] have "curr_best_accuracy sk \<noteq> NaN"
    by (simp add: f_le_def)
  with a show "f_le (curr_best_accuracy sk) (curr_best_accuracy sk')"
    by (blast intro: train_epoch_cba)
next
  assume a: "epoch_head E A mdir j = Some sj \<and> epoch_head E A mdir k = Some sk \<and> j \<le> k"
  then have "epoch_head E A mdir (j + (k - j)) = Some sk" by simp
  from epoch_head_mono [OF this] a
  show "f_le (curr_best_accuracy sj) (curr_best_accuracy sk)" by simp
next
  assume a: "epoch_head E A mdir k = Some sk \<and>
    epochs E A mdir [0..<nat (max_epoch_num A)] (init_state E A) = Inr sf"
  then have 1: "epochs E A mdir [k..<nat (max_epoch_num A)] sk = Inr sf"
    using epochs_from_head [of E A mdir k sk] by simp
  from a epoch_head_cba_not_NaN [of E A mdir k sk] have "curr_best_accuracy sk \<noteq> NaN"
    by (simp add: f_le_def)
  from epochs_cba [OF 1 this]
  show "f_le (curr_best_accuracy sk) (curr_best_accuracy sf)" .
qed

text \<open>
  In the concrete run the values are 0 on entering epoch 0, then 0.9 on entering epoch 1
  and at the end.
\<close>

theorem curr_best_accuracy_monotone_witness:
  "curr_best_accuracy (init_state ex_env ex_args) = Fin 0 \<and>
   curr_best_accuracy (validation_round ex_env ex_args ''/m/'' 1 0 (ex_round1 ''/m/'')) =
     curr_best_accuracy (ex_head1 ''/m/''\<lparr>curr_best_accuracy_epoch := Fin 0\<rparr>) \<and>
   f_le (curr_best_accuracy (init_state ex_env ex_args)) (curr_best_accuracy (ex_head1 ''/m/'')) \<and>
   f_le (curr_best_accuracy (ex_head1 ''/m/''))
     (curr_best_accuracy (ex_final ''/m/''\<lparr>effects := butlast (effects (ex_final ''/m/''))\<rparr>))"
proof -
  have 0: "epoch_head ex_env ex_args ''/m/'' 0 = Some (init_state ex_env ex_args)"
    by (simp add: ex_args_def)
  have 1: "(0::nat) \<le> 1"
    by simp
  from curr_best_accuracy_monotone [where E = ex_env and A = ex_args and mdir = "''/m/''"
      and epoch = 1 and i = 0 and b = "[0]"
      and s = "ex_head1 ''/m/''\<lparr>curr_best_accuracy_epoch := Fin 0\<rparr>"
      and s' = "validation_round ex_env ex_args ''/m/'' 1 0 (ex_round1 ''/m/'')"
      and j = 0 and sj = "init_state ex_env ex_args" and k = 1 and sk = "ex_head1 ''/m/''"
      and sf = "ex_final ''/m/''\<lparr>effects := butlast (effects (ex_final ''/m/''))\<rparr>"]
    0 1 ex_epochs [of "''/m/''"] ex_head1_reached [of "''/m/''"] ex_round1_step [of "''/m/''"]
  show ?thesis by blast
qed

subsection \<open>C4: the best accuracy of an epoch\<close>

text \<open>
  Claim C4. An epoch starts by setting \<^verbatim>\<open>curr_best_accuracy_epoch\<close> to 0: its outcome
  does not depend on the value the variable had. Cut the training pass of the epoch at
  any step: the value at the cut is at least 0, and the value at the end of the pass is
  at least the value at the cut. A validation round that changes the variable gives it
  a strictly greater value.
\<close>

theorem curr_best_accuracy_epoch_monotone:
  "train_epoch E A mdir epoch s =
     train_epoch E A mdir epoch (s\<lparr>curr_best_accuracy_epoch := Fin 0\<rparr>) \<and>
   (train_loader E A epoch = pre @ post \<and>
    train_steps E A mdir epoch 0 pre (s\<lparr>curr_best_accuracy_epoch := Fin 0\<rparr>) = Inr sa \<and>
    train_steps E A mdir epoch (length pre) post sa = Inr sb \<longrightarrow>
      f_le (Fin 0) (curr_best_accuracy_epoch sa) \<and>
      f_le (curr_best_accuracy_epoch sa) (curr_best_accuracy_epoch sb)) \<and>
   (curr_best_accuracy_epoch (validation_round E A mdir epoch i s) \<noteq> curr_best_accuracy_epoch s \<longrightarrow>
      f_gt (curr_best_accuracy_epoch (validation_round E A mdir epoch i s))
        (curr_best_accuracy_epoch s))"
proof (intro conjI impI)
  show "train_epoch E A mdir epoch s =
     train_epoch E A mdir epoch (s\<lparr>curr_best_accuracy_epoch := Fin 0\<rparr>)"
    by (simp add: train_epoch_def)
next
  assume a: "train_loader E A epoch = pre @ post \<and>
    train_steps E A mdir epoch 0 pre (s\<lparr>curr_best_accuracy_epoch := Fin 0\<rparr>) = Inr sa \<and>
    train_steps E A mdir epoch (length pre) post sa = Inr sb"
  then have 1: "train_steps E A mdir epoch 0 pre (s\<lparr>curr_best_accuracy_epoch := Fin 0\<rparr>) = Inr sa"
    and 2: "train_steps E A mdir epoch (length pre) post sa = Inr sb"
    by simp_all
  from train_steps_cbe [OF 1] show 3: "f_le (Fin 0) (curr_best_accuracy_epoch sa)" by simp
  then have "curr_best_accuracy_epoch sa \<noteq> NaN" by (simp add: f_le_def)
  from train_steps_cbe [OF 2 this]
  show "f_le (curr_best_accuracy_epoch sa) (curr_best_accuracy_epoch sb)" .
next
  assume "curr_best_accuracy_epoch (validation_round E A mdir epoch i s) \<noteq> curr_best_accuracy_epoch s"
  then show "f_gt (curr_best_accuracy_epoch (validation_round E A mdir epoch i s))
        (curr_best_accuracy_epoch s)"
    by (simp add: validation_round_fields Let_def split: if_splits)
qed

text \<open>
  In epoch 1 of the concrete run the value goes from 0 to 0.5.
\<close>

theorem curr_best_accuracy_epoch_monotone_witness:
  "f_le (Fin 0) (curr_best_accuracy_epoch (ex_head1 ''/m/''\<lparr>curr_best_accuracy_epoch := Fin 0\<rparr>)) \<and>
   f_le (curr_best_accuracy_epoch (ex_head1 ''/m/''\<lparr>curr_best_accuracy_epoch := Fin 0\<rparr>))
     (curr_best_accuracy_epoch (ex_steps1 ''/m/'')) \<and>
   f_gt (curr_best_accuracy_epoch (validation_round ex_env ex_args ''/m/'' 1 0 (ex_round1 ''/m/'')))
     (curr_best_accuracy_epoch (ex_round1 ''/m/''))"
proof -
  have 1: "train_loader ex_env ex_args 1 = [] @ [[0]]"
    by (simp add: ex_loaders_args)
  have 2: "train_steps ex_env ex_args ''/m/'' 1 0 []
      (ex_head1 ''/m/''\<lparr>curr_best_accuracy_epoch := Fin 0\<rparr>) =
      Inr (ex_head1 ''/m/''\<lparr>curr_best_accuracy_epoch := Fin 0\<rparr>)"
    by simp
  have 3: "train_steps ex_env ex_args ''/m/'' 1 (length []) [[0]]
      (ex_head1 ''/m/''\<lparr>curr_best_accuracy_epoch := Fin 0\<rparr>) = Inr (ex_steps1 ''/m/'')"
    using ex_steps1_eq [of "''/m/''"] by (simp add: ex_loaders_args)
  have 4: "curr_best_accuracy_epoch (validation_round ex_env ex_args ''/m/'' 1 0 (ex_round1 ''/m/'')) \<noteq>
      curr_best_accuracy_epoch (ex_round1 ''/m/'')"
    unfolding ex_round1_result by (simp add: ex_round1_def ex_steps1_def)
  from curr_best_accuracy_epoch_monotone [where E = ex_env and A = ex_args and mdir = "''/m/''"
      and epoch = 1 and pre = "[]" and post = "[[0]]" and s = "ex_head1 ''/m/''"
      and sa = "ex_head1 ''/m/''\<lparr>curr_best_accuracy_epoch := Fin 0\<rparr>"
      and sb = "ex_steps1 ''/m/''" and i = 0] 1 2 3
    curr_best_accuracy_epoch_monotone [where E = ex_env and A = ex_args and mdir = "''/m/''"
      and epoch = 1 and i = 0 and s = "ex_round1 ''/m/''"] 4
  show ?thesis by blast
qed

subsection \<open>C5: a validation loader without batches\<close>



subsection \<open>C6: removal of stale checkpoint files\<close>




subsection \<open>C7: the steps at which validation happens\<close>

text \<open>
  Claim C7. When \<^verbatim>\<open>step_interval\<close> is not 0, a training pass over any list of batches
  returns normally, and the validation rounds made in it are those of the steps whose
  number, counted from 1, \<^verbatim>\<open>step_interval\<close> divides: one round for each of them, in
  order, and none elsewhere. When \<^verbatim>\<open>step_interval\<close> is 0 and there is a batch, the pass
  raises \<^verbatim>\<open>ZeroDivisionError\<close> at its first step, before any validation.
\<close>

theorem validation_every_step_interval:
  "(step_interval A \<noteq> 0 \<longrightarrow>
      (\<exists>s'. train_steps E A mdir epoch 0 bs s = Inr s' \<and>
         progress_steps (effects s') =
           progress_steps (effects s) @
           filter (\<lambda>k. step_interval A dvd int k) [1..<Suc (length bs)])) \<and>
   (step_interval A = 0 \<longrightarrow> bs \<noteq> [] \<longrightarrow>
      train_steps E A mdir epoch 0 bs s = Inl ZeroDivisionError)"
proof (intro conjI impI)
  assume "step_interval A \<noteq> 0"
  from train_steps_progress [OF this, of E mdir epoch 0 bs s]
  show "\<exists>s'. train_steps E A mdir epoch 0 bs s = Inr s' \<and>
         progress_steps (effects s') =
           progress_steps (effects s) @
           filter (\<lambda>k. step_interval A dvd int k) [1..<Suc (length bs)]"
    by simp
next
  assume "step_interval A = 0" and "bs \<noteq> []"
  then show "train_steps E A mdir epoch 0 bs s = Inl ZeroDivisionError"
    by (cases bs) (simp_all add: train_step_cases)
qed

text \<open>
  Five batches with \<^verbatim>\<open>step_interval = 2\<close>: validation at steps 2 and 4.
\<close>

theorem validation_every_step_interval_witness:
  "(\<exists>s'. train_steps ex_env (ex_args\<lparr>step_interval := 2\<rparr>) ''/m/'' 0 0 [[0], [0], [0], [0], [0]]
           (init_state ex_env ex_args) = Inr s' \<and>
         progress_steps (effects s') = [2, 4]) \<and>
   train_steps ex_env (ex_args\<lparr>step_interval := 0\<rparr>) ''/m/'' 0 0 [[0]] (init_state ex_env ex_args) =
     Inl ZeroDivisionError"
proof -
  have 1: "filter (\<lambda>k. step_interval (ex_args\<lparr>step_interval := 2\<rparr>) dvd int k)
      [1..<Suc (length [[0::nat], [0], [0], [0], [0]])] = [2, 4]"
    by (simp add: upt_rec)
  have 2: "progress_steps (effects (init_state ex_env ex_args)) @ [2, 4] = [2, 4]"
    by (simp add: init_state_def progress_steps_def)
  have 3: "step_interval (ex_args\<lparr>step_interval := 2\<rparr>) \<noteq> 0"
    and 4: "step_interval (ex_args\<lparr>step_interval := 0\<rparr>) = 0" and 5: "[[0::nat]] \<noteq> []"
    by simp_all
  from validation_every_step_interval [of "ex_args\<lparr>step_interval := 2\<rparr>" ex_env "''/m/''" 0
      "[[0], [0], [0], [0], [0]]" "init_state ex_env ex_args"] 3
  have "\<exists>s'. train_steps ex_env (ex_args\<lparr>step_interval := 2\<rparr>) ''/m/'' 0 0 [[0], [0], [0], [0], [0]]
           (init_state ex_env ex_args) = Inr s' \<and>
         progress_steps (effects s') = [2, 4]"
    unfolding 1 2 by blast
  moreover
  from validation_every_step_interval [of "ex_args\<lparr>step_interval := 0\<rparr>" ex_env "''/m/''" 0
      "[[0]]" "init_state ex_env ex_args"] 4 5
  have "train_steps ex_env (ex_args\<lparr>step_interval := 0\<rparr>) ''/m/'' 0 0 [[0]] (init_state ex_env ex_args) =
     Inl ZeroDivisionError"
    by blast
  ultimately show ?thesis by blast
qed

subsection \<open>C8: validation does not change the parameters\<close>

text \<open>
  Claim C8. A validation round returns the parameters and the optimizer state that it
  was given. So the parameters after a training step, with or without validation, are
  those that the optimizer step of this training step produced. (The forward pass in
  evaluation mode is a collaborator; by its type here it reads the parameters.)
\<close>

theorem validation_keeps_parameters:
  "params (validation_round E A mdir epoch i s) = params s \<and>
   optim (validation_round E A mdir epoch i s) = optim s \<and>
   (train_step E A mdir epoch i b s = Inr s' \<longrightarrow>
      params s' = fst (train_batch E (params s) (optim s) b) \<and>
      optim s' = snd (train_batch E (params s) (optim s) b))"
  using train_step_params [of E A mdir epoch i b s s']
  by (simp add: validation_round_fields)

text \<open>
  The validation round of epoch 1 in the concrete run: two optimizer steps before it,
  two after it.
\<close>

theorem validation_keeps_parameters_witness:
  "params (validation_round ex_env ex_args ''/m/'' 1 0 (ex_round1 ''/m/'')) = 2 \<and>
   optim (validation_round ex_env ex_args ''/m/'' 1 0 (ex_round1 ''/m/'')) = 1"
  using validation_keeps_parameters [of ex_env ex_args "''/m/''" 1 0 "ex_round1 ''/m/''"]
  by (simp add: ex_round1_def)

subsection \<open>C9: the validation summary is the mean over the batches\<close>

text \<open>
  Claim C9. A validation pass collects one score of each kind for every batch of the
  loader, in order, and the progress line of the round shows \<^verbatim>\<open>np.mean\<close> of each of
  the four lists; the mean accuracy is also what the checkpoint gate receives. Each
  batch counts once, whatever its size. For two batches with accuracies 0.9 and 0.7 the
  mean accuracy is the float 0.8, bit for bit: \<open>3602879701896397 / 2\<^sup>5\<^sup>2\<close>.
\<close>

theorem validation_mean_accuracy:
  "valid_pass vb p bs ([], [], [], []) =
     (map (\<lambda>b. fst (vb p b)) bs, map (\<lambda>b. fst (snd (vb p b))) bs,
      map (\<lambda>b. fst (snd (snd (vb p b)))) bs, map (\<lambda>b. snd (snd (snd (vb p b)))) bs) \<and>
   last (effects (validation_round E A mdir epoch i s)) =
     Print_progress (epoch + 1) (max_epoch_num A) (i + 1) (total_step E A)
       (np_mean (map (\<lambda>b. fst (valid_batch E (params s) b)) (valid_loader E A epoch i)))
       (np_mean (map (\<lambda>b. fst (snd (valid_batch E (params s) b))) (valid_loader E A epoch i)))
       (np_mean (map (\<lambda>b. fst (snd (snd (valid_batch E (params s) b)))) (valid_loader E A epoch i)))
       (np_mean (map (\<lambda>b. snd (snd (snd (valid_batch E (params s) b)))) (valid_loader E A epoch i)))
       (curr_best_accuracy_epoch (validation_round E A mdir epoch i s)) \<and>
   (fst (snd (vb p ba)) = round64 (9 / 10) \<and> fst (snd (vb p bb)) = round64 (7 / 10) \<longrightarrow>
      np_mean (fst (snd (valid_pass vb p [ba, bb] ([], [], [], [])))) = round64 (8 / 10)) \<and>
   round64 (8 / 10) = Fin (3602879701896397 / 4503599627370496)"
proof (intro conjI impI)
  show "valid_pass vb p bs ([], [], [], []) =
     (map (\<lambda>b. fst (vb p b)) bs, map (\<lambda>b. fst (snd (vb p b))) bs,
      map (\<lambda>b. fst (snd (snd (vb p b)))) bs, map (\<lambda>b. snd (snd (snd (vb p b)))) bs)"
    by (simp add: valid_pass_eq)
next
  assume "fst (snd (vb p ba)) = round64 (9 / 10) \<and> fst (snd (vb p bb)) = round64 (7 / 10)"
  then show "np_mean (fst (snd (valid_pass vb p [ba, bb] ([], [], [], [])))) = round64 (8 / 10)"
    by (simp add: valid_pass_eq np_mean_example)
next
  show "round64 (8 / 10) = Fin (3602879701896397 / 4503599627370496)"
    by (rule round64_8_10)
qed (rule validation_round_last)

text \<open>
  Two batches with accuracies 0.9 and 0.7.
\<close>

theorem validation_mean_accuracy_witness:
  "np_mean (fst (snd (valid_pass ex_scores 0 [0, 1] ([], [], [], [])))) =
     Fin (3602879701896397 / 4503599627370496)"
proof -
  have "fst (snd (ex_scores 0 0)) = round64 (9 / 10) \<and> fst (snd (ex_scores 0 1)) = round64 (7 / 10)"
    by (simp add: ex_scores_def)
  with validation_mean_accuracy [where vb = ex_scores and p = 0 and ba = 0 and bb = 1]
  show ?thesis by metis
qed

subsection \<open>C10: the model directory "/"\<close>

text \<open>
  Claim C10. When \<^verbatim>\<open>model_dir\<close> is exactly \<^verbatim>\<open>"/"\<close>, the start-up phase returns the
  file system unchanged and \<^verbatim>\<open>model_dir\<close> unchanged: nothing is normalised, created
  or deleted. Every file that the run then writes has the path \<open>/epochN.ckpt\<close>, the
  string \<^verbatim>\<open>"/"\<close> followed by the file name, for an epoch index \<open>N\<close> of the run.
\<close>

theorem root_model_dir_untouched:
  "model_dir A = ''/'' \<longrightarrow>
     startup (abspath E) (model_dir A) fs = Inr (''/'', fs) \<and>
     (train E A fs = Inr (fs', s) \<longrightarrow>
        fs' = fs \<and>
        (\<forall>path\<in>fst ` set (saves (effects s)).
           \<exists>e<nat (max_epoch_num A). path = ''/'' @ ''epoch'' @ str_nat e @ ''.ckpt''))"
proof (intro impI conjI)
  assume root: "model_dir A = ''/''"
  then show "startup (abspath E) (model_dir A) fs = Inr (''/'', fs)"
    by (simp add: startup_root)
  assume run: "train E A fs = Inr (fs', s)"
  with root obtain s0 where
    1: "epochs E A ''/'' [0..<nat (max_epoch_num A)] (init_state E A) = Inr s0" and
    2: "s = s0\<lparr>effects := effects s0 @ [Print_cost]\<rparr>" and 3: "fs' = fs"
    by (auto simp: train_def startup_root split: sum.splits if_splits)
  from 3 show "fs' = fs" .
  have "saves (effects (init_state E A)) = []"
    by (simp add: init_state_def saves_def)
  with epochs_save_paths [OF 1]
  have 4: "fst ` set (saves (effects s0)) \<subseteq> checkpoint_path ''/'' ` {0..<nat (max_epoch_num A)}"
    by simp
  from 2 have 5: "saves (effects s) = saves (effects s0)"
    by (simp add: saves_append) (simp add: saves_def)
  show "\<forall>path\<in>fst ` set (saves (effects s)).
           \<exists>e<nat (max_epoch_num A). path = ''/'' @ ''epoch'' @ str_nat e @ ''.ckpt''"
  proof
    fix path assume "path \<in> fst ` set (saves (effects s))"
    with 4 5 have "path \<in> checkpoint_path ''/'' ` {0..<nat (max_epoch_num A)}" by auto
    then obtain e where "e < nat (max_epoch_num A)" and "path = checkpoint_path ''/'' e" by auto
    then show "\<exists>e<nat (max_epoch_num A). path = ''/'' @ ''epoch'' @ str_nat e @ ''.ckpt''"
      unfolding checkpoint_path_def by blast
  qed
qed

text \<open>
  The concrete run with \<^verbatim>\<open>model_dir = "/"\<close>: the stale files in \<open>/\<close> stay, and the
  file written is \<open>/epoch0.ckpt\<close>.
\<close>

theorem root_model_dir_untouched_witness:
  "startup (abspath ex_env) (model_dir ex_args_root) ex_root_fs = Inr (''/'', ex_root_fs) \<and>
   train ex_env ex_args_root ex_root_fs = Inr (ex_root_fs, ex_final ''/'') \<and>
   saves (effects (ex_final ''/'')) = [(''/epoch0.ckpt'', 1)] \<and>
   (\<exists>e<nat (max_epoch_num ex_args_root).
      ''/epoch0.ckpt'' = ''/'' @ ''epoch'' @ str_nat e @ ''.ckpt'')"
proof -
  have 1: "model_dir ex_args_root = ''/''"
    by (simp add: ex_args_root_def)
  have 2: "saves (effects (ex_final ''/'')) = [(''/epoch0.ckpt'', 1)]"
    by (simp add: ex_final_def ex_effects0_def saves_def)
  from root_model_dir_untouched [of ex_args_root ex_env ex_root_fs ex_root_fs "ex_final ''/''"]
    1 ex_train_root 2
  show ?thesis by simp
qed

end
